theory Spec2Isabelle
  imports Main "HOL-Library.Char_ord" "HOL-Library.List_Lexorder" "HOL-Library.Word"
begin

section \<open>JavaScript values used by the license module\<close>

text \<open>
  A \<^typ>\<open>string\<close> stands for the UTF-8 bytes of a JavaScript string. The values a license
  object carries are flat: strings, integral numbers, booleans and \<open>null\<close>. An object is
  its list of own properties in insertion order; a well-formed object has distinct keys.
  A byte array (\<open>Uint8Array\<close>) is a list of 8-bit words.
\<close>

datatype jsval = JStr string | JNum int | JBool bool | JNull

type_synonym jsobject = "(string \<times> jsval) list"

type_synonym bytes = "8 word list"

datatype js_error = Error string | TypeError string | RangeError string | SyntaxError string

text \<open>\<open>String(err)\<close> of an error object: its name, a colon, its message.\<close>

fun String_of_error :: "js_error \<Rightarrow> string" where
  "String_of_error (Error m) = ''Error: '' @ m"
| "String_of_error (TypeError m) = ''TypeError: '' @ m"
| "String_of_error (RangeError m) = ''RangeError: '' @ m"
| "String_of_error (SyntaxError m) = ''SyntaxError: '' @ m"

subsection \<open>Dates\<close>

text \<open>
  A \<open>Date\<close> holds a time value in milliseconds since the epoch, or is invalid (\<open>NaN\<close>).
  \<open>new Date(t)\<close> clips: a time value beyond 8.64e15 ms in absolute value gives an
  invalid date. Comparing dates with \<open><\<close> compares the time values, and every
  comparison with \<open>NaN\<close> is false.
\<close>

type_synonym js_date = "int option"

definition max_time :: int where
  "max_time = 8640000000000000"

definition new_Date :: "int \<Rightarrow> js_date" where
  "new_Date t = (if - max_time \<le> t \<and> t \<le> max_time then Some t else None)"

fun date_less :: "js_date \<Rightarrow> js_date \<Rightarrow> bool" where
  "date_less (Some a) (Some b) = (a < b)"
| "date_less _ _ = False"

text \<open>\<open>d.getTime() + ms\<close>: \<open>NaN\<close> for an invalid date.\<close>

fun getTime_plus :: "js_date \<Rightarrow> int \<Rightarrow> js_date" where
  "getTime_plus (Some t) ms = new_Date (t + ms)"
| "getTime_plus None ms = None"

subsection \<open>The license interfaces\<close>

datatype Plan = FREE | PRO

record SignedLicense =
  lic_plan :: Plan
  lic_customer_id :: string
  lic_issued_at :: string
  lic_expires_at :: string
  offline_ttl_days :: int
  lic_signature :: string

text \<open>
  \<open>isWithinOfflineTTL(license, lastVerified)\<close>; the third argument is the clock reading
  \<open>new Date()\<close>, always a valid date.
\<close>

definition isWithinOfflineTTL :: "SignedLicense \<Rightarrow> js_date \<Rightarrow> int \<Rightarrow> bool" where
  "isWithinOfflineTTL license lastVerified now =
     (let ttlMs = offline_ttl_days license * 24 * 60 * 60 * 1000;
          deadline = getTime_plus lastVerified ttlMs
      in date_less (Some now) deadline)"


section \<open>License signing and verification\<close>

subsection \<open>Canonical JSON\<close>

text \<open>
  \<open>JSON.stringify(obj, keys)\<close> with an array as replacer and no indentation: the array,
  with repeated names dropped after their first occurrence, is the list of properties to
  write, in that order; a name the object does not have is skipped. Members are written
  as the quoted name, a colon and the value, separated by commas, with no white space.
\<close>

definition hex_digit :: "nat \<Rightarrow> char" where
  "hex_digit n = (if n < 10 then char_of (48 + n) else char_of (87 + n))"

definition QuoteJSONChar :: "char \<Rightarrow> string" where
  "QuoteJSONChar c =
     (if c = CHR 0x08 then [CHR 0x5C, CHR ''b'']
      else if c = CHR 0x09 then [CHR 0x5C, CHR ''t'']
      else if c = CHR 0x0A then [CHR 0x5C, CHR ''n'']
      else if c = CHR 0x0C then [CHR 0x5C, CHR ''f'']
      else if c = CHR 0x0D then [CHR 0x5C, CHR ''r'']
      else if c = CHR 0x22 then [CHR 0x5C, CHR 0x22]
      else if c = CHR 0x5C then [CHR 0x5C, CHR 0x5C]
      else if (of_char c :: nat) < 32
        then [CHR 0x5C, CHR ''u'', CHR ''0'', CHR ''0'',
              hex_digit ((of_char c :: nat) div 16), hex_digit ((of_char c :: nat) mod 16)]
      else [c])"

definition QuoteJSONString :: "string \<Rightarrow> string" where
  "QuoteJSONString s = CHR 0x22 # concat (map QuoteJSONChar s) @ [CHR 0x22]"

fun digits :: "nat \<Rightarrow> string" where
  "digits n = (if n < 10 then [char_of (48 + n)] else digits (n div 10) @ [char_of (48 + n mod 10)])"

declare digits.simps [simp del]

definition Number_toString :: "int \<Rightarrow> string" where
  "Number_toString i = (if i < 0 then CHR ''-'' # digits (nat (- i)) else digits (nat i))"

fun SerializeJSONProperty :: "jsval \<Rightarrow> string" where
  "SerializeJSONProperty (JStr s) = QuoteJSONString s"
| "SerializeJSONProperty (JNum i) = Number_toString i"
| "SerializeJSONProperty (JBool b) = (if b then ''true'' else ''false'')"
| "SerializeJSONProperty JNull = ''null''"

fun join :: "string \<Rightarrow> string list \<Rightarrow> string" where
  "join sep [] = []"
| "join sep [x] = x"
| "join sep (x # y # ys) = x @ sep @ join sep (y # ys)"

definition PropertyList :: "string list \<Rightarrow> string list" where
  "PropertyList replacer = rev (remdups (rev replacer))"

definition member_text :: "jsobject \<Rightarrow> string \<Rightarrow> string option" where
  "member_text obj P =
     map_option (\<lambda>v. QuoteJSONString P @ '':'' @ SerializeJSONProperty v) (map_of obj P)"

definition JSON_stringify :: "jsobject \<Rightarrow> string list \<Rightarrow> string" where
  "JSON_stringify obj replacer =
     ''{'' @ join '','' (List.map_filter (member_text obj) (PropertyList replacer)) @ ''}''"

definition Object_keys :: "jsobject \<Rightarrow> string list" where
  "Object_keys obj = map fst obj"

text \<open>\<open>canonicalize\<close>: \<open>JSON.stringify(obj, Object.keys(obj).sort())\<close>.\<close>

definition canonicalize :: "jsobject \<Rightarrow> string" where
  "canonicalize obj = JSON_stringify obj (sort (Object_keys obj))"

text \<open>\<open>new TextEncoder().encode(message)\<close>: the UTF-8 bytes of the string.\<close>

definition TextEncoder_encode :: "string \<Rightarrow> bytes" where
  "TextEncoder_encode s = map (\<lambda>c. of_nat (of_char c)) s"

subsection \<open>Hexadecimal keys\<close>

text \<open>
  \<open>parseInt(s, 16)\<close>: leading white space, an optional sign and an optional \<open>0x\<close> are
  skipped, then the longest run of hexadecimal digits is read; with no digit the result is
  \<open>NaN\<close> (\<open>None\<close>). Storing into a \<open>Uint8Array\<close> writes 0 for \<open>NaN\<close> and the value
  modulo 256 otherwise. \<open>new Uint8Array(hex.length / 2)\<close> truncates a fractional length.
\<close>

definition is_white :: "char \<Rightarrow> bool" where
  "is_white c = (c \<in> set [CHR 0x09, CHR 0x0A, CHR 0x0B, CHR 0x0C, CHR 0x0D, CHR 0x20])"

definition hex_val :: "char \<Rightarrow> nat option" where
  "hex_val c =
     (let n = (of_char c :: nat) in
      if 48 \<le> n \<and> n \<le> 57 then Some (n - 48)
      else if 97 \<le> n \<and> n \<le> 102 then Some (n - 87)
      else if 65 \<le> n \<and> n \<le> 70 then Some (n - 55)
      else None)"

definition parseInt16 :: "string \<Rightarrow> int option" where
  "parseInt16 s =
     (let s1 = dropWhile is_white s;
          neg = (take 1 s1 = ''-'');
          s2 = (if take 1 s1 = ''-'' \<or> take 1 s1 = ''+'' then drop 1 s1 else s1);
          s3 = (if take 2 s2 = ''0x'' \<or> take 2 s2 = ''0X'' then drop 2 s2 else s2);
          ds = takeWhile (\<lambda>c. hex_val c \<noteq> None) s3;
          v = foldl (\<lambda>a c. 16 * a + int (the (hex_val c))) 0 ds
      in if ds = [] then None else Some (if neg then - v else v))"

definition ToUint8 :: "int option \<Rightarrow> 8 word" where
  "ToUint8 v = (case v of None \<Rightarrow> 0 | Some i \<Rightarrow> word_of_int i)"

definition hexToBytes :: "string \<Rightarrow> bytes" where
  "hexToBytes hex =
     map (\<lambda>i. ToUint8 (parseInt16 (take 2 (drop (i * 2) hex)))) [0..<length hex div 2]"

subsection \<open>The platform\<close>

text \<open>
  Functions of libraries outside the repository, taken as parameters:
  \<open>ed.signAsync(message, privateKey)\<close> and \<open>ed.verifyAsync(signature, message, publicKey)\<close>
  of the Ed25519 library, which may throw, and its \<open>getPublicKeyAsync(privateKey)\<close>, which
  says which public key matches a private key (\<open>None\<close> for a malformed key); \<open>Buffer\<close>'s
  base64 encoder and decoder, which do not throw on the arguments given here; and
  \<open>Date.prototype.toISOString\<close> on a valid time value.
\<close>

record platform =
  ed_signAsync :: "bytes \<Rightarrow> bytes \<Rightarrow> js_error + bytes"
  ed_verifyAsync :: "bytes \<Rightarrow> bytes \<Rightarrow> bytes \<Rightarrow> js_error + bool"
  ed_getPublicKey :: "bytes \<Rightarrow> bytes option"
  Buffer_toString_base64 :: "bytes \<Rightarrow> string"
  Buffer_from_base64 :: "string \<Rightarrow> bytes"
  Date_toISOString :: "int \<Rightarrow> string"

record config =
  licensePrivateKey :: string
  licensePublicKey :: string

definition bytesToBase64 :: "platform \<Rightarrow> bytes \<Rightarrow> string" where
  "bytesToBase64 lib bs = Buffer_toString_base64 lib bs"

text \<open>
  \<open>Buffer.from(x, "base64")\<close> decodes a string and throws a \<open>TypeError\<close> when \<open>x\<close> is
  \<open>undefined\<close>, \<open>null\<close>, a number or a boolean.
\<close>

definition base64ToBytes :: "platform \<Rightarrow> jsval option \<Rightarrow> js_error + bytes" where
  "base64ToBytes lib x =
     (case x of
        Some (JStr s) \<Rightarrow> Inr (Buffer_from_base64 lib s)
      | _ \<Rightarrow> Inl (TypeError ''The first argument must be of type string or an instance of Buffer, ArrayBuffer, or Array or an Array-like Object.''))"

subsection \<open>signLicense and verifyLicense\<close>

text \<open>\<open>{...payload, signature: s}\<close>: an existing property keeps its place, a new one goes last.\<close>

definition obj_set :: "jsobject \<Rightarrow> string \<Rightarrow> jsval \<Rightarrow> jsobject" where
  "obj_set obj k v =
     (if k \<in> set (map fst obj) then map (\<lambda>(k', v'). if k' = k then (k', v) else (k', v')) obj
      else obj @ [(k, v)])"

definition signLicense :: "platform \<Rightarrow> config \<Rightarrow> jsobject \<Rightarrow> js_error + jsobject" where
  "signLicense lib cfg payload =
     (let privateKey = hexToBytes (licensePrivateKey cfg);
          message = canonicalize payload
      in case ed_signAsync lib (TextEncoder_encode message) privateKey of
           Inl e \<Rightarrow> Inl e
         | Inr signature \<Rightarrow> Inr (obj_set payload ''signature'' (JStr (bytesToBase64 lib signature))))"

text \<open>
  What \<open>verifyLicense\<close> can be handed at run time: an object, or a value that is not an
  object (the parsed JSON \<open>null\<close>, a string, a number, a boolean).
\<close>

datatype js_input = Object jsobject | Primitive jsval

text \<open>
  \<open>const { signature, ...payload } = license\<close>: destructuring \<open>null\<close> throws; any other
  primitive has no \<open>signature\<close> property (the rest properties of a primitive are not
  modelled: the decoder throws on the undefined signature before the message is used).
\<close>

definition destructure :: "js_input \<Rightarrow> js_error + (jsval option \<times> jsobject)" where
  "destructure license =
     (case license of
        Primitive JNull \<Rightarrow> Inl (TypeError ''Cannot destructure null.'')
      | Primitive _ \<Rightarrow> Inr (None, [])
      | Object obj \<Rightarrow> Inr (map_of obj ''signature'', filter (\<lambda>(k, v). k \<noteq> ''signature'') obj))"

text \<open>The body of the \<open>try\<close> block of \<open>verifyLicense\<close>.\<close>

definition verifyLicense_try :: "platform \<Rightarrow> config \<Rightarrow> js_input \<Rightarrow> js_error + bool" where
  "verifyLicense_try lib cfg license =
     (let publicKey = hexToBytes (licensePublicKey cfg) in
      case destructure license of
        Inl e \<Rightarrow> Inl e
      | Inr (signature, payload) \<Rightarrow>
          (let message = canonicalize payload in
           case base64ToBytes lib signature of
             Inl e \<Rightarrow> Inl e
           | Inr sig \<Rightarrow> ed_verifyAsync lib sig (TextEncoder_encode message) publicKey))"

text \<open>\<open>verifyLicense\<close>: whatever the body throws is caught and answered with \<open>false\<close>.\<close>

definition verifyLicense :: "platform \<Rightarrow> config \<Rightarrow> js_input \<Rightarrow> bool" where
  "verifyLicense lib cfg license =
     (case verifyLicense_try lib cfg license of Inr ok \<Rightarrow> ok | Inl e \<Rightarrow> False)"



section \<open>The customer and license store\<close>

text \<open>
  The tables as the schema of \<open>db.ts\<close> declares them, rows in insertion (rowid) order. A
  \<open>TEXT\<close> timestamp written by \<open>toISOString\<close> is kept as that string; \<open>created_at\<close>,
  filled by \<open>datetime('now')\<close>, is the clock reading in whole seconds. The database handle
  is \<open>None\<close> until \<open>initDb\<close> has run. Writing the database file (\<open>saveDb\<close>) is not
  modelled.
\<close>

record customer_row =
  c_id :: string
  c_email :: string
  c_stripe_customer_id :: "string option"
  c_created_at :: int

record license_row =
  l_id :: string
  l_customer_id :: string
  l_plan :: Plan
  l_issued_at :: string
  l_expires_at :: string
  l_revoked_at :: "string option"
  l_created_at :: int

record database =
  customers :: "customer_row list"
  licenses :: "license_row list"

definition getDb :: "database option \<Rightarrow> js_error + database" where
  "getDb db =
     (case db of
        None \<Rightarrow> Inl (Error ''Database not initialized. Call initDb() first.'')
      | Some d \<Rightarrow> Inr d)"

text \<open>\<open>SELECT * FROM customers WHERE email = ?\<close>, first row of the scan.\<close>

definition findCustomerByEmail :: "database option \<Rightarrow> string \<Rightarrow> js_error + customer_row option" where
  "findCustomerByEmail db email =
     (case getDb db of
        Inl e \<Rightarrow> Inl e
      | Inr d \<Rightarrow> Inr (find (\<lambda>r. c_email r = email) (customers d)))"

text \<open>
  \<open>createCustomer(id, email, stripeCustomerId?)\<close>: the insert fails on a primary key already
  present; \<open>stripeCustomerId || null\<close> stores \<open>null\<close> for \<open>undefined\<close> and for the empty
  string.
\<close>

definition createCustomer ::
  "int \<Rightarrow> string \<Rightarrow> string \<Rightarrow> string option \<Rightarrow> database option \<Rightarrow> js_error + database option" where
  "createCustomer now id' email stripeCustomerId db =
     (case getDb db of
        Inl e \<Rightarrow> Inl e
      | Inr d \<Rightarrow>
          if id' \<in> set (map c_id (customers d))
          then Inl (Error ''UNIQUE constraint failed: customers.id'')
          else Inr (Some (d\<lparr>customers := customers d @
                 [\<lparr>c_id = id', c_email = email,
                   c_stripe_customer_id =
                     (case stripeCustomerId of None \<Rightarrow> None
                      | Some s \<Rightarrow> if s = [] then None else Some s),
                   c_created_at = now div 1000\<rparr>]\<rparr>)))"

text \<open>
  \<open>createLicense(id, customerId, plan, issuedAt, expiresAt)\<close>: five parameters, five columns
  inserted; \<open>revoked_at\<close> is left \<open>NULL\<close> and \<open>created_at\<close> takes its default.
\<close>

definition createLicense ::
  "int \<Rightarrow> string \<Rightarrow> string \<Rightarrow> Plan \<Rightarrow> string \<Rightarrow> string \<Rightarrow> database option
     \<Rightarrow> js_error + database option" where
  "createLicense now id' customerId plan issuedAt expiresAt db =
     (case getDb db of
        Inl e \<Rightarrow> Inl e
      | Inr d \<Rightarrow>
          if id' \<in> set (map l_id (licenses d))
          then Inl (Error ''UNIQUE constraint failed: licenses.id'')
          else Inr (Some (d\<lparr>licenses := licenses d @
                 [\<lparr>l_id = id', l_customer_id = customerId, l_plan = plan,
                   l_issued_at = issuedAt, l_expires_at = expiresAt,
                   l_revoked_at = None, l_created_at = now div 1000\<rparr>]\<rparr>)))"

text \<open>
  \<open>ORDER BY created_at DESC LIMIT 1\<close>: a row with the greatest \<open>created_at\<close>. SQL leaves
  the choice among rows of the same second open; the model takes the first in scan order.
\<close>

fun newest :: "license_row list \<Rightarrow> license_row option" where
  "newest [] = None"
| "newest (r # rs) =
     (case newest rs of
        None \<Rightarrow> Some r
      | Some b \<Rightarrow> if l_created_at r < l_created_at b then Some b else Some r)"

definition findLicenseByCustomer :: "database option \<Rightarrow> string \<Rightarrow> js_error + license_row option" where
  "findLicenseByCustomer db customerId =
     (case getDb db of
        Inl e \<Rightarrow> Inl e
      | Inr d \<Rightarrow>
          Inr (newest (filter (\<lambda>r. l_customer_id r = customerId \<and> l_revoked_at r = None)
                 (licenses d))))"

text \<open>
  The columns of a license row as \<open>getAsObject\<close> returns them; a property that is not a
  column reads as \<open>undefined\<close> (\<open>None\<close>).
\<close>

definition license_columns :: "license_row \<Rightarrow> (string \<times> string option) list" where
  "license_columns r =
     [(''id'', Some (l_id r)),
      (''customer_id'', Some (l_customer_id r)),
      (''plan'', Some (case l_plan r of FREE \<Rightarrow> ''FREE'' | PRO \<Rightarrow> ''PRO'')),
      (''issued_at'', Some (l_issued_at r)),
      (''expires_at'', Some (l_expires_at r)),
      (''revoked_at'', l_revoked_at r),
      (''created_at'', Some (Number_toString (l_created_at r)))]"

section \<open>The revocation registry\<close>

text \<open>
  The registry is one file. Its text is either what \<open>JSON.stringify\<close> wrote for a store
  (and \<open>JSON.parse\<close> gives the store back), the JSON text \<open>null\<close>, or text that
  \<open>JSON.parse\<close> rejects, the empty file included.
\<close>

record RevocationEntry =
  license_id :: string
  revoked_at :: string
  reason :: string

record RevocationStore =
  entries :: "RevocationEntry list"
  last_updated :: string

datatype file_text = StoreJson RevocationStore | NullJson | Unparsable string

record filesystem =
  dirs :: "string set"
  files :: "string \<Rightarrow> file_text option"

definition DATA_DIR :: string where
  "DATA_DIR = ''./data''"

definition REVOKED_FILE :: string where
  "REVOKED_FILE = ''data/revoked_keys.json''"

text \<open>
  The file system calls as steps, so that the states between them can be looked at.
  \<open>fs.writeFileSync(path, text)\<close> opens the file for writing, which creates or truncates
  it, and then writes the text.
\<close>

datatype fs_step = Mkdir string | OpenTruncate string | WriteData string file_text

fun fs_apply :: "fs_step \<Rightarrow> filesystem \<Rightarrow> filesystem" where
  "fs_apply (Mkdir d) fs = fs\<lparr>dirs := insert d (dirs fs)\<rparr>"
| "fs_apply (OpenTruncate p) fs = fs\<lparr>files := (files fs)(p \<mapsto> Unparsable [])\<rparr>"
| "fs_apply (WriteData p t) fs = fs\<lparr>files := (files fs)(p \<mapsto> t)\<rparr>"

definition run_steps :: "fs_step list \<Rightarrow> filesystem \<Rightarrow> filesystem" where
  "run_steps steps fs = fold fs_apply steps fs"

definition writeFileSync_steps :: "string \<Rightarrow> file_text \<Rightarrow> fs_step list" where
  "writeFileSync_steps p t = [OpenTruncate p, WriteData p t]"

definition ensureDataDir_steps :: "filesystem \<Rightarrow> fs_step list" where
  "ensureDataDir_steps fs = (if DATA_DIR \<in> dirs fs then [] else [Mkdir DATA_DIR])"

definition ensureDataDir :: "filesystem \<Rightarrow> filesystem" where
  "ensureDataDir fs = run_steps (ensureDataDir_steps fs) fs"

definition JSON_parse :: "file_text \<Rightarrow> js_error + RevocationStore option" where
  "JSON_parse raw =
     (case raw of
        StoreJson s \<Rightarrow> Inr (Some s)
      | NullJson \<Rightarrow> Inr None
      | Unparsable t \<Rightarrow> Inl (SyntaxError ''Unexpected token in JSON''))"

definition empty_store :: "platform \<Rightarrow> int \<Rightarrow> RevocationStore" where
  "empty_store lib now = \<lparr>entries = [], last_updated = Date_toISOString lib now\<rparr>"

text \<open>
  \<open>loadRevocationStore\<close> returns what \<open>JSON.parse\<close> gave, cast to a store: \<open>None\<close> is the
  value \<open>null\<close>, on which every property access throws.
\<close>

definition loadRevocationStore ::
  "platform \<Rightarrow> int \<Rightarrow> filesystem \<Rightarrow> RevocationStore option \<times> filesystem" where
  "loadRevocationStore lib now fs =
     (let fs1 = ensureDataDir fs in
      case files fs1 REVOKED_FILE of
        None \<Rightarrow> (Some (empty_store lib now), fs1)
      | Some raw \<Rightarrow>
          (case JSON_parse raw of
             Inl e \<Rightarrow> (Some (empty_store lib now), fs1)
           | Inr v \<Rightarrow> (v, fs1)))"

definition saveRevocationStore_steps ::
  "platform \<Rightarrow> int \<Rightarrow> RevocationStore \<Rightarrow> filesystem \<Rightarrow> fs_step list" where
  "saveRevocationStore_steps lib now store fs =
     ensureDataDir_steps fs @
     writeFileSync_steps REVOKED_FILE (StoreJson (store\<lparr>last_updated := Date_toISOString lib now\<rparr>))"

definition saveRevocationStore ::
  "platform \<Rightarrow> int \<Rightarrow> RevocationStore \<Rightarrow> filesystem \<Rightarrow> filesystem" where
  "saveRevocationStore lib now store fs = run_steps (saveRevocationStore_steps lib now store fs) fs"

definition null_entries :: js_error where
  "null_entries =
     TypeError (''Cannot read properties of null (reading '' @ [CHR 0x27] @ ''entries'' @ [CHR 0x27] @ '')'')"

definition isRevoked ::
  "platform \<Rightarrow> int \<Rightarrow> string \<Rightarrow> filesystem \<Rightarrow> (js_error + bool) \<times> filesystem" where
  "isRevoked lib now licenseId fs =
     (case loadRevocationStore lib now fs of
        (None, fs1) \<Rightarrow> (Inl null_entries, fs1)
      | (Some store, fs1) \<Rightarrow> (Inr (list_ex (\<lambda>e. license_id e = licenseId) (entries store)), fs1))"

definition getRevocationInfo ::
  "platform \<Rightarrow> int \<Rightarrow> string \<Rightarrow> filesystem \<Rightarrow> (js_error + RevocationEntry option) \<times> filesystem" where
  "getRevocationInfo lib now licenseId fs =
     (case loadRevocationStore lib now fs of
        (None, fs1) \<Rightarrow> (Inl null_entries, fs1)
      | (Some store, fs1) \<Rightarrow> (Inr (find (\<lambda>e. license_id e = licenseId) (entries store)), fs1))"

definition addRevocation ::
  "platform \<Rightarrow> int \<Rightarrow> string \<Rightarrow> string \<Rightarrow> filesystem \<Rightarrow> (js_error + unit) \<times> filesystem" where
  "addRevocation lib now licenseId reason' fs =
     (case loadRevocationStore lib now fs of
        (None, fs1) \<Rightarrow> (Inl null_entries, fs1)
      | (Some store, fs1) \<Rightarrow>
          if list_ex (\<lambda>e. license_id e = licenseId) (entries store) then (Inr (), fs1)
          else (Inr (), saveRevocationStore lib now
                  (store\<lparr>entries := entries store @
                     [\<lparr>license_id = licenseId, revoked_at = Date_toISOString lib now,
                       reason = reason'\<rparr>]\<rparr>) fs1))"

definition removeRevocation ::
  "platform \<Rightarrow> int \<Rightarrow> string \<Rightarrow> filesystem \<Rightarrow> (js_error + bool) \<times> filesystem" where
  "removeRevocation lib now licenseId fs =
     (case loadRevocationStore lib now fs of
        (None, fs1) \<Rightarrow> (Inl null_entries, fs1)
      | (Some store, fs1) \<Rightarrow>
          (let before = length (entries store);
               store' = store\<lparr>entries := filter (\<lambda>e. license_id e \<noteq> licenseId) (entries store)\<rparr>
           in if length (entries store') < before
              then (Inr True, saveRevocationStore lib now store' fs1)
              else (Inr False, fs1)))"

definition listRevocations ::
  "platform \<Rightarrow> int \<Rightarrow> filesystem \<Rightarrow> (js_error + RevocationEntry list) \<times> filesystem" where
  "listRevocations lib now fs =
     (case loadRevocationStore lib now fs of
        (None, fs1) \<Rightarrow> (Inl null_entries, fs1)
      | (Some store, fs1) \<Rightarrow> (Inr (entries store), fs1))"

definition getRevocationCount ::
  "platform \<Rightarrow> int \<Rightarrow> filesystem \<Rightarrow> (js_error + nat) \<times> filesystem" where
  "getRevocationCount lib now fs =
     (case loadRevocationStore lib now fs of
        (None, fs1) \<Rightarrow> (Inl null_entries, fs1)
      | (Some store, fs1) \<Rightarrow> (Inr (length (entries store)), fs1))"

text \<open>
  The states a crash can leave while a list of steps runs: the state after every prefix.
\<close>

definition crash_states :: "fs_step list \<Rightarrow> filesystem \<Rightarrow> filesystem list" where
  "crash_states steps fs = map (\<lambda>k. run_steps (take k steps) fs) [0..<Suc (length steps)]"



section \<open>The payment gateway\<close>

datatype PaymentProvider = stripe | paddle

text \<open>
  The event type is a string at run time; \<open>unknown_event t\<close> is a string \<open>t\<close> that is none
  of the four the interface names.
\<close>

datatype PaymentEventType =
  checkout_completed | subscription_updated | subscription_cancelled | payment_failed
  | unknown_event string

record PaymentEvent =
  provider :: PaymentProvider
  eventType :: PaymentEventType
  email :: string
  plan :: Plan
  externalCustomerId :: string
  externalTransactionId :: string
  expiresAt :: "js_date option"
  metadata :: "(string \<times> string) list option"

record PaymentResult =
  success :: bool
  customerId :: "string option"
  licenseId :: "string option"
  error :: "string option"

text \<open>
  What one call reads from outside: the clock (\<open>new Date()\<close>, milliseconds since the
  epoch; one call is taken to run within one millisecond) and the values successive calls
  of \<open>uuid()\<close> return. The state the gateway works on: the database handle and the file
  system holding the registry. Console output is not part of the state.
\<close>

record env =
  clock :: int
  uuid :: "nat \<Rightarrow> string"

record world =
  world_db :: "database option"
  world_fs :: filesystem

fun plan_text :: "Plan \<Rightarrow> string" where
  "plan_text FREE = ''FREE''"
| "plan_text PRO = ''PRO''"

fun provider_text :: "PaymentProvider \<Rightarrow> string" where
  "provider_text stripe = ''stripe''"
| "provider_text paddle = ''paddle''"

text \<open>\<open>d.toISOString()\<close> throws a \<open>RangeError\<close> on an invalid date.\<close>

definition toISOString :: "platform \<Rightarrow> js_date \<Rightarrow> js_error + string" where
  "toISOString lib d =
     (case d of
        None \<Rightarrow> Inl (RangeError ''Invalid time value'')
      | Some t \<Rightarrow> Inr (Date_toISOString lib t))"

text \<open>
  The part \<open>handleCheckoutCompleted\<close> and \<open>handleSubscriptionUpdated\<close> share line for line:
  expiry, payload, \<open>signLicense\<close> (whose result is dropped), \<open>createLicense\<close>, result.
  \<open>k\<close> is the number of \<open>uuid()\<close> calls made before. The call passes \<open>event.provider\<close>
  and \<open>event.externalTransactionId\<close> as a sixth and seventh argument to \<open>createLicense\<close>,
  which declares five parameters: the two are dropped.
\<close>

definition issue_license ::
  "platform \<Rightarrow> config \<Rightarrow> env \<Rightarrow> nat \<Rightarrow> PaymentEvent \<Rightarrow> string \<Rightarrow> world
     \<Rightarrow> (js_error + PaymentResult) \<times> world" where
  "issue_license lib cfg ev k event cid w =
     (let now = clock ev;
          expiresAt' = (case expiresAt event of
                          Some d \<Rightarrow> d
                        | None \<Rightarrow> new_Date (now + 365 * 24 * 60 * 60 * 1000))
      in case toISOString lib (Some now) of
           Inl e \<Rightarrow> (Inl e, w)
         | Inr issued \<Rightarrow>
             (case toISOString lib expiresAt' of
                Inl e \<Rightarrow> (Inl e, w)
              | Inr expires \<Rightarrow>
                  (let payload = [(''plan'', JStr (plan_text (plan event))),
                                  (''customer_id'', JStr cid),
                                  (''issued_at'', JStr issued),
                                  (''expires_at'', JStr expires),
                                  (''offline_ttl_days'', JNum 30)]
                   in case signLicense lib cfg payload of
                        Inl e \<Rightarrow> (Inl e, w)
                      | Inr signedLicense \<Rightarrow>
                          (let lid = uuid ev k in
                           case createLicense now lid cid (plan event) issued expires (world_db w) of
                             Inl e \<Rightarrow> (Inl e, w)
                           | Inr db' \<Rightarrow>
                               (Inr \<lparr>success = True, customerId = Some cid,
                                     licenseId = Some lid, error = None\<rparr>,
                                w\<lparr>world_db := db'\<rparr>)))))"

text \<open>
  \<open>createCustomer\<close> is called with four arguments (id, email, stripeId, paddleId) and
  declares three: the Paddle id is dropped.
\<close>

definition handleCheckoutCompleted ::
  "platform \<Rightarrow> config \<Rightarrow> env \<Rightarrow> PaymentEvent \<Rightarrow> world \<Rightarrow> (js_error + PaymentResult) \<times> world" where
  "handleCheckoutCompleted lib cfg ev event w =
     (case findCustomerByEmail (world_db w) (email event) of
        Inl e \<Rightarrow> (Inl e, w)
      | Inr (Some customer) \<Rightarrow> issue_license lib cfg ev 0 event (c_id customer) w
      | Inr None \<Rightarrow>
          (let cid = uuid ev 0;
               stripeId = (if provider event = stripe then Some (externalCustomerId event) else None)
           in case createCustomer (clock ev) cid (email event) stripeId (world_db w) of
                Inl e \<Rightarrow> (Inl e, w)
              | Inr db' \<Rightarrow> issue_license lib cfg ev 1 event cid (w\<lparr>world_db := db'\<rparr>)))"

definition handleSubscriptionUpdated ::
  "platform \<Rightarrow> config \<Rightarrow> env \<Rightarrow> PaymentEvent \<Rightarrow> world \<Rightarrow> (js_error + PaymentResult) \<times> world" where
  "handleSubscriptionUpdated lib cfg ev event w =
     (case findCustomerByEmail (world_db w) (email event) of
        Inl e \<Rightarrow> (Inl e, w)
      | Inr None \<Rightarrow>
          (Inr \<lparr>success = False, customerId = None, licenseId = None,
                error = Some ''Customer not found''\<rparr>, w)
      | Inr (Some customer) \<Rightarrow>
          (case findLicenseByCustomer (world_db w) (c_id customer) of
             Inl e \<Rightarrow> (Inl e, w)
           | Inr existingLicense \<Rightarrow>
               if (case existingLicense of None \<Rightarrow> False | Some l \<Rightarrow> l_plan l = plan event)
               then (Inr \<lparr>success = True, customerId = Some (c_id customer), licenseId = None,
                          error = None\<rparr>, w)
               else issue_license lib cfg ev 0 event (c_id customer) w))"

text \<open>
  \<open>UPDATE licenses SET revoked_at = ? WHERE customer_id = ? AND revoked_at IS NULL\<close>.
\<close>

definition stamp_revoked :: "string \<Rightarrow> string \<Rightarrow> license_row \<Rightarrow> license_row" where
  "stamp_revoked cid stamp r =
     (if l_customer_id r = cid \<and> l_revoked_at r = None then r\<lparr>l_revoked_at := Some stamp\<rparr> else r)"

definition handleSubscriptionCancelled ::
  "platform \<Rightarrow> config \<Rightarrow> env \<Rightarrow> PaymentEvent \<Rightarrow> world \<Rightarrow> (js_error + PaymentResult) \<times> world" where
  "handleSubscriptionCancelled lib cfg ev event w =
     (case findCustomerByEmail (world_db w) (email event) of
        Inl e \<Rightarrow> (Inl e, w)
      | Inr None \<Rightarrow>
          (Inr \<lparr>success = False, customerId = None, licenseId = None,
                error = Some ''Customer not found''\<rparr>, w)
      | Inr (Some customer) \<Rightarrow>
          (case addRevocation lib (clock ev) (c_id customer)
                  (''Subscription cancelled via '' @ provider_text (provider event)) (world_fs w) of
             (Inl e, fs') \<Rightarrow> (Inl e, w\<lparr>world_fs := fs'\<rparr>)
           | (Inr u, fs') \<Rightarrow>
               (case getDb (world_db w) of
                  Inl e \<Rightarrow> (Inl e, w\<lparr>world_fs := fs'\<rparr>)
                | Inr d \<Rightarrow>
                    (Inr \<lparr>success = True, customerId = Some (c_id customer), licenseId = None,
                          error = None\<rparr>,
                     \<lparr>world_db = Some (d\<lparr>licenses :=
                         map (stamp_revoked (c_id customer) (Date_toISOString lib (clock ev)))
                           (licenses d)\<rparr>),
                      world_fs = fs'\<rparr>))))"

definition handlePaymentFailed :: "PaymentEvent \<Rightarrow> PaymentResult" where
  "handlePaymentFailed event = \<lparr>success = True, customerId = None, licenseId = None, error = None\<rparr>"

text \<open>The \<open>switch\<close> inside the \<open>try\<close> block of \<open>processPaymentEvent\<close>.\<close>

definition processPaymentEvent_try ::
  "platform \<Rightarrow> config \<Rightarrow> env \<Rightarrow> PaymentEvent \<Rightarrow> world \<Rightarrow> (js_error + PaymentResult) \<times> world" where
  "processPaymentEvent_try lib cfg ev event w =
     (case eventType event of
        checkout_completed \<Rightarrow> handleCheckoutCompleted lib cfg ev event w
      | subscription_updated \<Rightarrow> handleSubscriptionUpdated lib cfg ev event w
      | subscription_cancelled \<Rightarrow> handleSubscriptionCancelled lib cfg ev event w
      | payment_failed \<Rightarrow> (Inr (handlePaymentFailed event), w)
      | unknown_event t \<Rightarrow>
          (Inr \<lparr>success = False, customerId = None, licenseId = None,
                error = Some (''Unknown event type: '' @ t)\<rparr>, w))"

text \<open>
  The \<open>try\<close> and \<open>catch\<close> of \<open>processPaymentEvent\<close>, on an event whose fields have the
  types the interface declares: the \<open>catch\<close> turns whatever was thrown into a failure
  result. What the handler had written before it threw stays written. The logging
  statement before the \<open>try\<close> cannot throw on such an event; it is part of
  \<open>processPaymentEvent_call\<close> below.
\<close>

definition processPaymentEvent ::
  "platform \<Rightarrow> config \<Rightarrow> env \<Rightarrow> PaymentEvent \<Rightarrow> world \<Rightarrow> PaymentResult \<times> world" where
  "processPaymentEvent lib cfg ev event w =
     (case processPaymentEvent_try lib cfg ev event w of
        (Inl err, w') \<Rightarrow>
          (\<lparr>success = False, customerId = None, licenseId = None,
            error = Some (String_of_error err)\<rparr>, w')
      | (Inr result, w') \<Rightarrow> (result, w'))"

text \<open>
  The whole call, on what can arrive at run time. The first statement, before the \<open>try\<close>,
  is \<open>console.log\<close> of a template that reads \<open>event.provider\<close>, \<open>event.eventType\<close> and
  \<open>event.email\<close> and converts each to a string. Reading a property of \<open>null\<close> or
  \<open>undefined\<close> throws, and so does the conversion of a value that has no string form (a
  \<open>Symbol\<close>, an object whose \<open>toString\<close> is not a function). The routes build the event
  themselves with literal provider and event type, but take the email from the parsed
  webhook body unchecked, so the email is the slot modelled: a string, or a value that
  cannot be converted. \<open>Inl\<close> is the rejected promise: the exception reaches the caller.
\<close>

datatype js_slot = a_string string | unconvertible

datatype runtime_event = null_or_undefined | event_object js_slot PaymentEvent

fun template_text :: "js_slot \<Rightarrow> js_error + string" where
  "template_text (a_string s) = Inr s"
| "template_text unconvertible = Inl (TypeError ''Cannot convert object to primitive value'')"

definition processPaymentEvent_call ::
  "platform \<Rightarrow> config \<Rightarrow> env \<Rightarrow> runtime_event \<Rightarrow> world
     \<Rightarrow> (js_error + PaymentResult) \<times> world" where
  "processPaymentEvent_call lib cfg ev input w =
     (case input of
        null_or_undefined \<Rightarrow>
          (Inl (TypeError (''Cannot read properties of null (reading '' @ [CHR 0x27] @ ''provider''
                           @ [CHR 0x27] @ '')'')), w)
      | event_object slot event \<Rightarrow>
          (case template_text slot of
             Inl err \<Rightarrow> (Inl err, w)
           | Inr email' \<Rightarrow>
               (case processPaymentEvent lib cfg ev (event\<lparr>email := email'\<rparr>) w of
                  (result, w') \<Rightarrow> (Inr result, w'))))"




text \<open>The license table of a state; empty while the database is not initialised.\<close>

definition license_rows :: "world \<Rightarrow> license_row list" where
  "license_rows w = (case world_db w of None \<Rightarrow> [] | Some d \<Rightarrow> licenses d)"

section \<open>Replay and registry well-formedness\<close>

text \<open>Events processed one after the other, each with its own clock reading and identifiers.\<close>

fun process_events :: "platform \<Rightarrow> config \<Rightarrow> (env \<times> PaymentEvent) list \<Rightarrow> world \<Rightarrow> world" where
  "process_events lib cfg [] w = w"
| "process_events lib cfg (c # rest) w =
     process_events lib cfg rest (snd (processPaymentEvent lib cfg (fst c) (snd c) w))"

text \<open>
  A registry file the module itself can have written, or none, or one that does not parse:
  not the text \<open>null\<close>, and no subject listed twice.
\<close>

definition registry_wellformed :: "filesystem \<Rightarrow> bool" where
  "registry_wellformed fs =
     (case files fs REVOKED_FILE of
        Some NullJson \<Rightarrow> False
      | Some (StoreJson s) \<Rightarrow> distinct (map license_id (entries s))
      | _ \<Rightarrow> True)"

text \<open>The entries a load sees.\<close>

definition seen_entries :: "filesystem \<Rightarrow> RevocationEntry list" where
  "seen_entries fs = (case files fs REVOKED_FILE of Some (StoreJson s) \<Rightarrow> entries s | _ \<Rightarrow> [])"

text \<open>What holds of the registry once a subject has been added.\<close>

definition revoked_once :: "string \<Rightarrow> filesystem \<Rightarrow> bool" where
  "revoked_once c fs =
     (DATA_DIR \<in> dirs fs \<and>
      (case files fs REVOKED_FILE of
         Some (StoreJson s) \<Rightarrow>
           distinct (map license_id (entries s)) \<and> list_ex (\<lambda>e. license_id e = c) (entries s)
       | _ \<Rightarrow> False))"

section \<open>Concrete inputs\<close>

text \<open>
  An instance of the platform on which the model can be evaluated: a signature is the
  32-byte key followed by the message (so the public key of a private key is the key
  itself), base64 text carries one character per byte, and a time value is printed as its
  number of milliseconds.
\<close>

definition demo_platform :: platform where
  "demo_platform =
     \<lparr>ed_signAsync = (\<lambda>m sk. if length sk = 32 then Inr (sk @ m)
                              else Inl (Error ''private key of length 32 expected'')),
      ed_verifyAsync = (\<lambda>s m pk. if length pk = 32 then Inr (s = pk @ m)
                                  else Inl (Error ''public key of length 32 expected'')),
      ed_getPublicKey = (\<lambda>sk. if length sk = 32 then Some sk else None),
      Buffer_toString_base64 = map (\<lambda>b. char_of (unat b)),
      Buffer_from_base64 = map (\<lambda>c. of_nat (of_char c)),
      Date_toISOString = Number_toString\<rparr>"

definition demo_key :: string where
  "demo_key = ''000102030405060708090a0b0c0d0e0f101112131415161718191a1b1c1d1e1f''"

definition demo_config :: config where
  "demo_config = \<lparr>licensePrivateKey = demo_key, licensePublicKey = demo_key\<rparr>"

definition demo_env :: env where
  "demo_env = \<lparr>clock = 1700000100000, uuid = (\<lambda>n. ''uuid-'' @ digits n)\<rparr>"

definition demo_customer :: customer_row where
  "demo_customer =
     \<lparr>c_id = ''C'', c_email = ''a@x.com'', c_stripe_customer_id = Some ''cus_1'',
      c_created_at = 1700000000\<rparr>"

definition demo_license :: license_row where
  "demo_license =
     \<lparr>l_id = ''L1'', l_customer_id = ''C'', l_plan = PRO, l_issued_at = ''1700000000000'',
      l_expires_at = ''1731536000000'', l_revoked_at = None, l_created_at = 1700000000\<rparr>"

definition demo_db :: database where
  "demo_db = \<lparr>customers = [demo_customer], licenses = [demo_license]\<rparr>"

definition demo_fs :: filesystem where
  "demo_fs = \<lparr>dirs = {DATA_DIR}, files = Map.empty\<rparr>"

definition demo_world :: world where
  "demo_world = \<lparr>world_db = Some demo_db, world_fs = demo_fs\<rparr>"

definition demo_event :: "PaymentEventType \<Rightarrow> PaymentEvent" where
  "demo_event t =
     \<lparr>provider = stripe, eventType = t, email = ''a@x.com'', plan = PRO,
      externalCustomerId = ''cus_1'', externalTransactionId = ''sub_1'',
      expiresAt = None, metadata = None\<rparr>"

definition demo_signed :: SignedLicense where
  "demo_signed =
     \<lparr>lic_plan = PRO, lic_customer_id = ''C'', lic_issued_at = ''2023-11-14T22:13:20.000Z'',
      lic_expires_at = ''2024-11-13T22:13:20.000Z'', offline_ttl_days = 30,
      lic_signature = ''c2ln''\<rparr>"



definition demo_entry :: RevocationEntry where
  "demo_entry =
     \<lparr>license_id = ''C0'', revoked_at = ''1690000000000'',
      reason = ''Subscription cancelled via paddle''\<rparr>"

definition demo_store :: RevocationStore where
  "demo_store = \<lparr>entries = [demo_entry], last_updated = ''1690000000000''\<rparr>"

definition demo_registry_fs :: filesystem where
  "demo_registry_fs = \<lparr>dirs = {DATA_DIR}, files = [REVOKED_FILE \<mapsto> StoreJson demo_store]\<rparr>"

definition demo_corrupt_fs :: filesystem where
  "demo_corrupt_fs = \<lparr>dirs = {DATA_DIR}, files = [REVOKED_FILE \<mapsto> Unparsable ''{ entries: ['']\<rparr>"

definition demo_calls :: "(env \<times> PaymentEvent) list" where
  "demo_calls =
     [(demo_env, demo_event subscription_cancelled),
      (demo_env\<lparr>clock := 1700000200000\<rparr>, (demo_event subscription_cancelled)\<lparr>provider := paddle\<rparr>)]"

text \<open>
  The checkout of \<open>tests/payment.test.ts\<close>, "should create license with correct payment
  provider", on a freshly initialised database, and the license row it leaves.
\<close>

definition fresh_world :: world where
  "fresh_world = \<lparr>world_db = Some \<lparr>customers = [], licenses = []\<rparr>, world_fs = demo_fs\<rparr>"

definition paddle_checkout :: PaymentEvent where
  "paddle_checkout =
     \<lparr>provider = paddle, eventType = checkout_completed, email = ''paddle@example.com'', plan = PRO,
      externalCustomerId = ''ctm_paddle'', externalTransactionId = ''txn_paddle'',
      expiresAt = None, metadata = None\<rparr>"

definition paddle_license :: license_row where
  "paddle_license =
     \<lparr>l_id = ''uuid-1'', l_customer_id = ''uuid-0'', l_plan = PRO,
      l_issued_at = Date_toISOString demo_platform 1700000100000,
      l_expires_at = Date_toISOString demo_platform 1731536100000,
      l_revoked_at = None, l_created_at = 1700000100\<rparr>"







section \<open>Facts about the concrete inputs\<close>

lemma demo_isRevoked: "fst (isRevoked demo_platform 0 ''C'' demo_fs) = Inr False"
  by (simp add: isRevoked_def loadRevocationStore_def ensureDataDir_def ensureDataDir_steps_def
      run_steps_def demo_fs_def empty_store_def)

lemma demo_findLicense: "findLicenseByCustomer (Some demo_db) ''C'' = Inr (Some demo_license)"
  by (simp add: findLicenseByCustomer_def getDb_def demo_db_def demo_license_def)

lemma demo_findCustomer: "findCustomerByEmail (Some demo_db) ''a@x.com'' = Inr (Some demo_customer)"
  by (simp add: findCustomerByEmail_def getDb_def demo_db_def demo_customer_def)

section \<open>The offline time-to-live\<close>

lemma isWithinOfflineTTL_cases:
  "isWithinOfflineTTL l lastVerified now =
     (case lastVerified of
        None \<Rightarrow> False
      | Some lv \<Rightarrow> - max_time \<le> lv + offline_ttl_days l * 24 * 60 * 60 * 1000
           \<and> lv + offline_ttl_days l * 24 * 60 * 60 * 1000 \<le> max_time
           \<and> now < lv + offline_ttl_days l * 24 * 60 * 60 * 1000)"
  by (cases lastVerified) (auto simp add: isWithinOfflineTTL_def new_Date_def Let_def)

text \<open>
  C7, as stated: for every credential and every \<open>lastVerified\<close> time, \<open>isWithinOfflineTTL\<close>
  is true exactly when \<open>now < lastVerified + offline_ttl_days\<close> in milliseconds. It fails
  where the deadline is not a time value a \<open>Date\<close> can hold: with
  \<open>offline_ttl_days = 1000000000\<close> and \<open>lastVerified\<close> the epoch, the deadline
  \<open>new Date(8.64e16)\<close> is an invalid date and the comparison is false, although \<open>now\<close> is
  far below 8.64e16.
\<close>

theorem isWithinOfflineTTL_counterexample:
  "\<not> isWithinOfflineTTL (demo_signed\<lparr>offline_ttl_days := 1000000000\<rparr>) (Some 0) 1700000000000
   \<and> (1700000000000 :: int)
        < 0 + offline_ttl_days (demo_signed\<lparr>offline_ttl_days := 1000000000\<rparr>) * 24 * 60 * 60 * 1000"
  by (simp add: isWithinOfflineTTL_def new_Date_def Let_def demo_signed_def max_time_def)

text \<open>
  C7, amended: for a valid \<open>lastVerified\<close> whose deadline
  \<open>lastVerified + offline_ttl_days * 24 * 60 * 60 * 1000\<close> is a time value a \<open>Date\<close> can
  hold (at most 8.64e15 ms in absolute value), \<open>isWithinOfflineTTL\<close> is true exactly when
  \<open>now\<close> is before the deadline: true one millisecond before it, false one millisecond
  after it. Where the deadline is out of that range, or \<open>lastVerified\<close> is an invalid
  date, the result is false.
\<close>

theorem isWithinOfflineTTL_deadline:
  "(- max_time \<le> lv + offline_ttl_days l * 24 * 60 * 60 * 1000
      \<and> lv + offline_ttl_days l * 24 * 60 * 60 * 1000 \<le> max_time
    \<longrightarrow> (isWithinOfflineTTL l (Some lv) now \<longleftrightarrow> now < lv + offline_ttl_days l * 24 * 60 * 60 * 1000)
      \<and> isWithinOfflineTTL l (Some lv) (lv + offline_ttl_days l * 24 * 60 * 60 * 1000 - 1)
      \<and> \<not> isWithinOfflineTTL l (Some lv) (lv + offline_ttl_days l * 24 * 60 * 60 * 1000 + 1))
   \<and> (\<not> (- max_time \<le> lv + offline_ttl_days l * 24 * 60 * 60 * 1000
          \<and> lv + offline_ttl_days l * 24 * 60 * 60 * 1000 \<le> max_time)
      \<longrightarrow> \<not> isWithinOfflineTTL l (Some lv) now)
   \<and> \<not> isWithinOfflineTTL l None now"
  by (auto simp add: isWithinOfflineTTL_cases)

theorem isWithinOfflineTTL_deadline_witness:
  "isWithinOfflineTTL demo_signed (Some 1700000000000) 1702591999999
   \<and> \<not> isWithinOfflineTTL demo_signed (Some 1700000000000) 1702592000001
   \<and> \<not> isWithinOfflineTTL demo_signed (Some 1700000000000) 1702592000000"
  using isWithinOfflineTTL_deadline [of 1700000000000 demo_signed 1702592000000]
  by (simp add: demo_signed_def max_time_def)

section \<open>Events that change nothing\<close>

text \<open>
  C8: a \<open>payment_failed\<close> event returns success and leaves the whole state as it was: no
  license row is created or changed and no revocation entry is added, so afterwards
  \<open>findLicenseByCustomer\<close> and \<open>isRevoked\<close> answer for every customer what they answered
  before.
\<close>

theorem payment_failed_mutates_nothing:
  assumes "eventType event = payment_failed"
      and "processPaymentEvent lib cfg ev event w = (r, w')"
  shows "success r \<and> error r = None \<and> w' = w
       \<and> findLicenseByCustomer (world_db w') cid = findLicenseByCustomer (world_db w) cid
       \<and> isRevoked lib t cid (world_fs w') = isRevoked lib t cid (world_fs w)"
  using assms
  by (auto simp add: processPaymentEvent_def processPaymentEvent_try_def handlePaymentFailed_def)

theorem payment_failed_witness:
  "success (fst (processPaymentEvent demo_platform demo_config demo_env (demo_event payment_failed) demo_world))
   \<and> snd (processPaymentEvent demo_platform demo_config demo_env (demo_event payment_failed) demo_world)
       = demo_world
   \<and> findLicenseByCustomer (world_db (snd (processPaymentEvent demo_platform demo_config demo_env
         (demo_event payment_failed) demo_world))) ''C'' = Inr (Some demo_license)
   \<and> fst (isRevoked demo_platform 0 ''C'' (world_fs (snd (processPaymentEvent demo_platform
         demo_config demo_env (demo_event payment_failed) demo_world)))) = Inr False"
  using payment_failed_mutates_nothing [of "demo_event payment_failed" demo_platform demo_config
      demo_env demo_world
      "fst (processPaymentEvent demo_platform demo_config demo_env (demo_event payment_failed) demo_world)"
      "snd (processPaymentEvent demo_platform demo_config demo_env (demo_event payment_failed) demo_world)"
      "''C''" 0]
    demo_isRevoked demo_findLicense
  by (simp add: demo_event_def demo_world_def)

section \<open>The gateway's error boundary\<close>

lemma demo_uninitialised:
  "processPaymentEvent_try demo_platform demo_config demo_env (demo_event checkout_completed)
     (demo_world\<lparr>world_db := None\<rparr>)
   = (Inl (Error ''Database not initialized. Call initDb() first.''), demo_world\<lparr>world_db := None\<rparr>)"
  by (simp add: processPaymentEvent_try_def handleCheckoutCompleted_def findCustomerByEmail_def
      getDb_def demo_event_def)

lemma demo_null_registry:
  "processPaymentEvent_try demo_platform demo_config demo_env (demo_event subscription_cancelled)
     (demo_world\<lparr>world_fs := demo_fs\<lparr>files := [REVOKED_FILE \<mapsto> NullJson]\<rparr>\<rparr>)
   = (Inl null_entries, demo_world\<lparr>world_fs := demo_fs\<lparr>files := [REVOKED_FILE \<mapsto> NullJson]\<rparr>\<rparr>)"
  by (simp add: processPaymentEvent_try_def handleSubscriptionCancelled_def demo_world_def
      demo_findCustomer demo_event_def addRevocation_def loadRevocationStore_def ensureDataDir_def
      ensureDataDir_steps_def run_steps_def demo_fs_def JSON_parse_def)

text \<open>
  What the \<open>try\<close> and \<open>catch\<close> achieve on a typed event: an event type that is none of
  the four yields a failure result whose message names the type, and the state is
  untouched; whatever the handlers throw (the model has the uninitialised database handle,
  a violated primary key, an invalid expiry date, a failing signature call and a registry
  file holding \<open>null\<close>) is turned into \<open>{success: false, error: String(err)}\<close>; a
  handler's own result is passed on.
\<close>

lemma processPaymentEvent_catches:
  "(\<forall>t. eventType event = unknown_event t \<longrightarrow>
          processPaymentEvent lib cfg ev event w =
            (\<lparr>success = False, customerId = None, licenseId = None,
              error = Some (''Unknown event type: '' @ t)\<rparr>, w))
   \<and> (\<forall>err w'. processPaymentEvent_try lib cfg ev event w = (Inl err, w') \<longrightarrow>
          processPaymentEvent lib cfg ev event w =
            (\<lparr>success = False, customerId = None, licenseId = None,
              error = Some (String_of_error err)\<rparr>, w'))
   \<and> (\<forall>r w'. processPaymentEvent_try lib cfg ev event w = (Inr r, w') \<longrightarrow>
          processPaymentEvent lib cfg ev event w = (r, w'))"
  by (simp add: processPaymentEvent_def processPaymentEvent_try_def)

lemma processPaymentEvent_catches_examples:
  "processPaymentEvent demo_platform demo_config demo_env
       (demo_event (unknown_event ''refund_issued'')) demo_world
     = (\<lparr>success = False, customerId = None, licenseId = None,
         error = Some ''Unknown event type: refund_issued''\<rparr>, demo_world)
   \<and> processPaymentEvent demo_platform demo_config demo_env (demo_event checkout_completed)
        (demo_world\<lparr>world_db := None\<rparr>)
     = (\<lparr>success = False, customerId = None, licenseId = None,
         error = Some ''Error: Database not initialized. Call initDb() first.''\<rparr>,
        demo_world\<lparr>world_db := None\<rparr>)
   \<and> processPaymentEvent demo_platform demo_config demo_env (demo_event subscription_cancelled)
        (demo_world\<lparr>world_fs := demo_fs\<lparr>files := [REVOKED_FILE \<mapsto> NullJson]\<rparr>\<rparr>)
     = (\<lparr>success = False, customerId = None, licenseId = None,
         error = Some (String_of_error null_entries)\<rparr>,
        demo_world\<lparr>world_fs := demo_fs\<lparr>files := [REVOKED_FILE \<mapsto> NullJson]\<rparr>\<rparr>)"
  using processPaymentEvent_catches [of "demo_event (unknown_event ''refund_issued'')"
      demo_platform demo_config demo_env demo_world]
    processPaymentEvent_catches [of "demo_event checkout_completed" demo_platform demo_config
      demo_env "demo_world\<lparr>world_db := None\<rparr>"]
    processPaymentEvent_catches [of "demo_event subscription_cancelled" demo_platform demo_config
      demo_env "demo_world\<lparr>world_fs := demo_fs\<lparr>files := [REVOKED_FILE \<mapsto> NullJson]\<rparr>\<rparr>"]
    demo_uninitialised demo_null_registry
  by (simp add: demo_event_def)

text \<open>The call does not reject when the email is a string.\<close>

lemma processPaymentEvent_call_string_email:
  "processPaymentEvent_call lib cfg ev (event_object (a_string x) event) w =
     (Inr (fst (processPaymentEvent lib cfg ev (event\<lparr>email := x\<rparr>) w)),
      snd (processPaymentEvent lib cfg ev (event\<lparr>email := x\<rparr>) w))"
  by (simp add: processPaymentEvent_call_def split: prod.splits)

text \<open>
  C5: for every input event \<open>processPaymentEvent\<close> returns a result and never lets an
  exception out. Evaluated on the event the Paddle route builds from a
  \<open>transaction.completed\<close> webhook whose \<open>custom_data.email\<close> is an object that cannot be
  converted to a string, and on \<open>null\<close>: the call rejects with a \<open>TypeError\<close>, thrown by
  the logging statement before the \<open>try\<close>, and no result is returned.
\<close>

theorem processPaymentEvent_call_rejects:
  "processPaymentEvent_call demo_platform demo_config demo_env
       (event_object unconvertible ((demo_event checkout_completed)\<lparr>provider := paddle\<rparr>))
       demo_world
     = (Inl (TypeError ''Cannot convert object to primitive value''), demo_world)
   \<and> fst (processPaymentEvent_call demo_platform demo_config demo_env null_or_undefined demo_world)
     = Inl (TypeError (''Cannot read properties of null (reading '' @ [CHR 0x27] @ ''provider''
                        @ [CHR 0x27] @ '')''))"
  by (simp add: processPaymentEvent_call_def)

section \<open>Reading and writing the registry file\<close>

text \<open>
  C10: when the registry file is absent or its text does not parse, every read answers as
  for an empty registry: \<open>isRevoked\<close> is false and \<open>getRevocationInfo\<close> is \<open>null\<close> for
  every subject, \<open>listRevocations\<close> is empty and \<open>getRevocationCount\<close> is 0; nothing is
  thrown.
\<close>

theorem registry_unreadable_reads_empty:
  assumes "files fs REVOKED_FILE = None \<or> (\<exists>t. files fs REVOKED_FILE = Some (Unparsable t))"
  shows "fst (isRevoked lib now s fs) = Inr False
       \<and> fst (getRevocationInfo lib now s fs) = Inr None
       \<and> fst (listRevocations lib now fs) = Inr []
       \<and> fst (getRevocationCount lib now fs) = Inr 0"
  using assms
  by (auto simp add: isRevoked_def getRevocationInfo_def listRevocations_def getRevocationCount_def
      loadRevocationStore_def ensureDataDir_def ensureDataDir_steps_def run_steps_def
      JSON_parse_def empty_store_def Let_def)

theorem registry_unreadable_reads_empty_witness:
  "fst (isRevoked demo_platform 0 ''C0'' demo_corrupt_fs) = Inr False
   \<and> fst (getRevocationInfo demo_platform 0 ''C0'' demo_corrupt_fs) = Inr None
   \<and> fst (listRevocations demo_platform 0 demo_corrupt_fs) = Inr []
   \<and> fst (getRevocationCount demo_platform 0 demo_corrupt_fs) = Inr 0
   \<and> fst (isRevoked demo_platform 0 ''C0'' demo_fs) = Inr False
   \<and> fst (getRevocationCount demo_platform 0 demo_fs) = Inr 0"
  using registry_unreadable_reads_empty [of demo_corrupt_fs demo_platform 0 "''C0''"]
    registry_unreadable_reads_empty [of demo_fs demo_platform 0 "''C0''"]
  by (simp add: demo_corrupt_fs_def demo_fs_def)

lemma crash_states_2: "crash_states [a, b] fs = [fs, fs_apply a fs, fs_apply b (fs_apply a fs)]"
  by (simp add: crash_states_def run_steps_def)

lemma crash_states_3:
  "crash_states [a, b, c] fs =
     [fs, fs_apply a fs, fs_apply b (fs_apply a fs), fs_apply c (fs_apply b (fs_apply a fs))]"
  by (simp add: crash_states_def run_steps_def)

lemma saveRevocationStore_steps_cases:
  "saveRevocationStore_steps lib now store fs =
     (if DATA_DIR \<in> dirs fs then [] else [Mkdir DATA_DIR]) @
     [OpenTruncate REVOKED_FILE,
      WriteData REVOKED_FILE (StoreJson (store\<lparr>last_updated := Date_toISOString lib now\<rparr>))]"
  by (simp add: saveRevocationStore_steps_def ensureDataDir_steps_def writeFileSync_steps_def)

text \<open>
  C9, as stated: every write of the registry replaces the persisted state atomically, so
  that a crash during the write leaves the old file or the new one. It fails:
  \<open>saveRevocationStore\<close> writes the registry file in place, and after its first step
  (the file opened for writing) the file is empty, which is neither the store it held nor
  the store being written, and does not parse.
\<close>

theorem saveRevocationStore_crash_counterexample:
  "run_steps (take 1 (saveRevocationStore_steps demo_platform 1700000100000 demo_store demo_registry_fs))
       demo_registry_fs
     \<in> set (crash_states (saveRevocationStore_steps demo_platform 1700000100000 demo_store demo_registry_fs)
           demo_registry_fs)
   \<and> files (run_steps (take 1 (saveRevocationStore_steps demo_platform 1700000100000 demo_store
         demo_registry_fs)) demo_registry_fs) REVOKED_FILE = Some (Unparsable [])
   \<and> files demo_registry_fs REVOKED_FILE = Some (StoreJson demo_store)
   \<and> files (saveRevocationStore demo_platform 1700000100000 demo_store demo_registry_fs) REVOKED_FILE
       = Some (StoreJson (demo_store\<lparr>last_updated := Date_toISOString demo_platform 1700000100000\<rparr>))
   \<and> JSON_parse (Unparsable []) = Inl (SyntaxError ''Unexpected token in JSON'')"
  by (simp add: saveRevocationStore_def saveRevocationStore_steps_cases crash_states_2
      run_steps_def demo_registry_fs_def JSON_parse_def)

text \<open>
  C9, amended: every write of the registry is one whole-file write in place. When it
  completes, the registry file holds the store handed in, with \<open>last_updated\<close> set to the
  time of the write. While it runs no other file is written (there is no temporary file
  and no rename), and the registry file holds its old text, or no text at all, or the new
  text; the empty state is reached on every write, so the write is not atomic.
\<close>

theorem saveRevocationStore_in_place:
  "files (saveRevocationStore lib now store fs) REVOKED_FILE
     = Some (StoreJson (store\<lparr>last_updated := Date_toISOString lib now\<rparr>))
   \<and> (\<forall>fs' \<in> set (crash_states (saveRevocationStore_steps lib now store fs) fs).
         (\<forall>p. p \<noteq> REVOKED_FILE \<longrightarrow> files fs' p = files fs p)
         \<and> (files fs' REVOKED_FILE = files fs REVOKED_FILE
            \<or> files fs' REVOKED_FILE = Some (Unparsable [])
            \<or> files fs' REVOKED_FILE
                 = Some (StoreJson (store\<lparr>last_updated := Date_toISOString lib now\<rparr>))))
   \<and> (\<exists>fs' \<in> set (crash_states (saveRevocationStore_steps lib now store fs) fs).
         files fs' REVOKED_FILE = Some (Unparsable []))"
  by (simp add: saveRevocationStore_def saveRevocationStore_steps_cases crash_states_2 crash_states_3
      run_steps_def)

theorem saveRevocationStore_in_place_witness:
  "files (saveRevocationStore demo_platform 1700000100000 demo_store demo_registry_fs) REVOKED_FILE
     = Some (StoreJson (demo_store\<lparr>last_updated := Date_toISOString demo_platform 1700000100000\<rparr>))
   \<and> (\<exists>fs' \<in> set (crash_states (saveRevocationStore_steps demo_platform 1700000100000 demo_store
           demo_registry_fs) demo_registry_fs).
         files fs' REVOKED_FILE = Some (Unparsable []))"
  using saveRevocationStore_in_place [of demo_platform 1700000100000 demo_store demo_registry_fs]
  by simp



section \<open>Cancellation and the registry\<close>

lemma files_ensureDataDir [simp]: "files (ensureDataDir fs) = files fs"
  by (simp add: ensureDataDir_def ensureDataDir_steps_def run_steps_def)

lemma dirs_ensureDataDir [simp]: "dirs (ensureDataDir fs) = insert DATA_DIR (dirs fs)"
  by (auto simp add: ensureDataDir_def ensureDataDir_steps_def run_steps_def)

lemma ensureDataDir_idem: "DATA_DIR \<in> dirs fs \<Longrightarrow> ensureDataDir fs = fs"
  by (simp add: ensureDataDir_def ensureDataDir_steps_def run_steps_def)

lemma files_saveRevocationStore:
  "files (saveRevocationStore lib now store fs)
     = (files fs)(REVOKED_FILE \<mapsto> StoreJson (store\<lparr>last_updated := Date_toISOString lib now\<rparr>))"
  by (simp add: saveRevocationStore_def saveRevocationStore_steps_def ensureDataDir_steps_def
      writeFileSync_steps_def run_steps_def)

lemma dirs_saveRevocationStore:
  "dirs (saveRevocationStore lib now store fs) = insert DATA_DIR (dirs fs)"
  by (auto simp add: saveRevocationStore_def saveRevocationStore_steps_def ensureDataDir_steps_def
      writeFileSync_steps_def run_steps_def)

lemma loadRevocationStore_wellformed:
  assumes "registry_wellformed fs"
  shows "\<exists>s. loadRevocationStore lib now fs = (Some s, ensureDataDir fs) \<and> entries s = seen_entries fs"
  using assms
  by (auto simp add: registry_wellformed_def loadRevocationStore_def seen_entries_def JSON_parse_def
      empty_store_def Let_def split: option.splits file_text.splits)

lemma count_one:
  "distinct (map license_id es) \<Longrightarrow> list_ex (\<lambda>e. license_id e = c) es
     \<Longrightarrow> length (filter (\<lambda>e. license_id e = c) es) = 1"
proof (induction es)
  case Nil
  then show ?case by simp
next
  case (Cons x xs)
  show ?case
  proof (cases "license_id x = c")
    case True
    with Cons.prems have "filter (\<lambda>e. license_id e = c) xs = []"
      by (auto simp add: filter_empty_conv) (metis imageI)
    with True show ?thesis by simp
  next
    case False
    with Cons show ?thesis by simp
  qed
qed

lemma count_none:
  "\<not> list_ex (\<lambda>e. license_id e = c) es \<Longrightarrow> filter (\<lambda>e. license_id e = c) es = []"
  by (auto simp add: filter_empty_conv list_ex_iff)

lemma addRevocation_wellformed:
  assumes "registry_wellformed fs"
  shows "\<exists>fs'. addRevocation lib now c r fs = (Inr (), fs') \<and> revoked_once c fs'"
proof -
  from loadRevocationStore_wellformed [OF assms]
  obtain s where s: "loadRevocationStore lib now fs = (Some s, ensureDataDir fs)"
    and es: "entries s = seen_entries fs" by blast
  have d: "distinct (map license_id (entries s))"
    using assms es
    by (auto simp add: registry_wellformed_def seen_entries_def split: option.splits file_text.splits)
  show ?thesis
  proof (cases "list_ex (\<lambda>e. license_id e = c) (entries s)")
    case True
    then have "files fs REVOKED_FILE = Some (StoreJson s') \<Longrightarrow> entries s' = entries s" for s'
      using es by (simp add: seen_entries_def)
    moreover from True es obtain s' where "files fs REVOKED_FILE = Some (StoreJson s')"
      by (auto simp add: seen_entries_def split: option.splits file_text.splits)
    ultimately show ?thesis using True s d
      by (auto simp add: addRevocation_def revoked_once_def)
  next
    case False
    then show ?thesis using s d
      by (auto simp add: addRevocation_def revoked_once_def files_saveRevocationStore
          dirs_saveRevocationStore list_ex_iff)
  qed
qed

lemma addRevocation_again:
  assumes "revoked_once c fs"
  shows "addRevocation lib now c r fs = (Inr (), fs)"
  using assms
  by (auto simp add: revoked_once_def addRevocation_def loadRevocationStore_def JSON_parse_def
      ensureDataDir_idem Let_def split: option.splits file_text.splits)

lemma revoked_once_reads:
  assumes "revoked_once c fs"
  shows "fst (isRevoked lib t c fs) = Inr True"
    and "\<exists>es. fst (listRevocations lib t fs) = Inr es \<and> length (filter (\<lambda>x. license_id x = c) es) = 1"
  using assms
  by (auto simp add: revoked_once_def isRevoked_def listRevocations_def loadRevocationStore_def
      JSON_parse_def ensureDataDir_idem Let_def count_one split: option.splits file_text.splits)

lemma stamp_revoked_again: "stamp_revoked c t2 \<circ> stamp_revoked c t1 = stamp_revoked c t1"
  by (auto simp add: stamp_revoked_def fun_eq_iff)

lemma findCustomerByEmail_Some:
  "findCustomerByEmail db e = Inr (Some customer) \<Longrightarrow> \<exists>d. db = Some d \<and> find (\<lambda>r. c_email r = e) (customers d) = Some customer"
  by (auto simp add: findCustomerByEmail_def getDb_def split: option.splits)

text \<open>The state after the first cancellation, and that a further one leaves it as it is.\<close>

lemma cancel_first:
  assumes "eventType event = subscription_cancelled"
      and "world_db w = Some d"
      and "find (\<lambda>r. c_email r = email event) (customers d) = Some customer"
      and "registry_wellformed (world_fs w)"
  shows "\<exists>fs'. snd (processPaymentEvent lib cfg ev event w)
           = \<lparr>world_db = Some (d\<lparr>licenses := map (stamp_revoked (c_id customer)
                   (Date_toISOString lib (clock ev))) (licenses d)\<rparr>), world_fs = fs'\<rparr>
         \<and> revoked_once (c_id customer) fs'"
proof -
  from addRevocation_wellformed [OF assms(4)]
  obtain fs' where "addRevocation lib (clock ev) (c_id customer)
      (''Subscription cancelled via '' @ provider_text (provider event)) (world_fs w) = (Inr (), fs')"
    and "revoked_once (c_id customer) fs'" by blast
  then show ?thesis using assms(1-3)
    by (simp add: processPaymentEvent_def processPaymentEvent_try_def handleSubscriptionCancelled_def
        findCustomerByEmail_def getDb_def)
qed

lemma cancel_again:
  assumes "eventType event = subscription_cancelled"
      and "find (\<lambda>r. c_email r = email event) (customers d) = Some customer"
      and "revoked_once (c_id customer) fs"
  shows "snd (processPaymentEvent lib cfg ev event
           \<lparr>world_db = Some (d\<lparr>licenses := map (stamp_revoked (c_id customer) t1) (licenses d)\<rparr>),
            world_fs = fs\<rparr>)
         = \<lparr>world_db = Some (d\<lparr>licenses := map (stamp_revoked (c_id customer) t1) (licenses d)\<rparr>),
            world_fs = fs\<rparr>"
  using assms addRevocation_again [OF assms(3)]
  by (simp add: processPaymentEvent_def processPaymentEvent_try_def handleSubscriptionCancelled_def
      findCustomerByEmail_def getDb_def stamp_revoked_again)

lemma cancel_replay:
  assumes "\<forall>c \<in> set calls. eventType (snd c) = subscription_cancelled \<and> email (snd c) = e"
      and "find (\<lambda>r. c_email r = e) (customers d) = Some customer"
      and "revoked_once (c_id customer) fs"
  shows "process_events lib cfg calls
           \<lparr>world_db = Some (d\<lparr>licenses := map (stamp_revoked (c_id customer) t1) (licenses d)\<rparr>),
            world_fs = fs\<rparr>
         = \<lparr>world_db = Some (d\<lparr>licenses := map (stamp_revoked (c_id customer) t1) (licenses d)\<rparr>),
            world_fs = fs\<rparr>"
  using assms
proof (induction calls)
  case Nil
  then show ?case by simp
next
  case (Cons c calls)
  then show ?case by (simp add: cancel_again)
qed

lemma stamped_all_revoked:
  "l_customer_id (stamp_revoked c t r) = c \<Longrightarrow> \<exists>y. l_revoked_at (stamp_revoked c t r) = Some y"
  by (cases "l_customer_id r = c \<and> l_revoked_at r = None") (auto simp add: stamp_revoked_def)

text \<open>
  C4: let the customer found by an email exist and the registry file be well formed. After
  one or more \<open>subscription_cancelled\<close> events for that email, \<open>isRevoked\<close> of the
  customer id is true, the registry lists exactly one entry for that subject, and the
  license table is the old one with every row of the customer that was not revoked
  stamped (with the time of the first of the events); so every row of the customer has a
  \<open>revoked_at\<close>.
\<close>

theorem subscription_cancelled_revokes:
  assumes "calls \<noteq> []"
      and "\<forall>c \<in> set calls. eventType (snd c) = subscription_cancelled \<and> email (snd c) = e"
      and "findCustomerByEmail (world_db w) e = Inr (Some customer)"
      and "registry_wellformed (world_fs w)"
  shows "fst (isRevoked lib t (c_id customer) (world_fs (process_events lib cfg calls w))) = Inr True
       \<and> (\<exists>es. fst (listRevocations lib t (world_fs (process_events lib cfg calls w))) = Inr es
              \<and> length (filter (\<lambda>x. license_id x = c_id customer) es) = 1)
       \<and> (\<exists>d. world_db w = Some d
              \<and> world_db (process_events lib cfg calls w)
                  = Some (d\<lparr>licenses := map (stamp_revoked (c_id customer)
                        (Date_toISOString lib (clock (fst (hd calls))))) (licenses d)\<rparr>))
       \<and> (\<forall>d' \<in> set_option (world_db (process_events lib cfg calls w)).
             \<forall>r \<in> set (licenses d'). l_customer_id r = c_id customer \<longrightarrow> l_revoked_at r \<noteq> None)"
proof -
  from assms(1) obtain c rest where calls: "calls = c # rest" by (cases calls) auto
  from findCustomerByEmail_Some [OF assms(3)]
  obtain d where d: "world_db w = Some d"
    and f: "find (\<lambda>r. c_email r = e) (customers d) = Some customer" by blast
  from assms(2) calls have c: "eventType (snd c) = subscription_cancelled" "email (snd c) = e"
    and rest: "\<forall>c \<in> set rest. eventType (snd c) = subscription_cancelled \<and> email (snd c) = e"
    by auto
  from cancel_first [OF c(1) d _ assms(4), of customer lib cfg "fst c"] f c(2)
  obtain fs' where
    w1: "snd (processPaymentEvent lib cfg (fst c) (snd c) w)
           = \<lparr>world_db = Some (d\<lparr>licenses := map (stamp_revoked (c_id customer)
                   (Date_toISOString lib (clock (fst c)))) (licenses d)\<rparr>), world_fs = fs'\<rparr>"
    and once: "revoked_once (c_id customer) fs'" by auto
  have final: "process_events lib cfg calls w
           = \<lparr>world_db = Some (d\<lparr>licenses := map (stamp_revoked (c_id customer)
                   (Date_toISOString lib (clock (fst c)))) (licenses d)\<rparr>), world_fs = fs'\<rparr>"
    using cancel_replay [OF rest f once] w1 calls by simp
  have hd: "hd calls = c" using calls by simp
  show ?thesis
    unfolding final hd
    using revoked_once_reads [OF once, of lib t] d
    by (auto intro: stamped_all_revoked)
qed

theorem subscription_cancelled_revokes_witness:
  "fst (isRevoked demo_platform 0 ''C''
     (world_fs (process_events demo_platform demo_config demo_calls demo_world))) = Inr True
   \<and> (\<exists>es. fst (listRevocations demo_platform 0
             (world_fs (process_events demo_platform demo_config demo_calls demo_world))) = Inr es
          \<and> length (filter (\<lambda>x. license_id x = ''C'') es) = 1)
   \<and> world_db (process_events demo_platform demo_config demo_calls demo_world)
       = Some (demo_db\<lparr>licenses :=
           [demo_license\<lparr>l_revoked_at := Some (Date_toISOString demo_platform 1700000100000)\<rparr>]\<rparr>)"
  using subscription_cancelled_revokes [of demo_calls "''a@x.com''" demo_world demo_customer
      demo_platform 0 demo_config] demo_findCustomer
  by (simp add: demo_calls_def demo_event_def demo_world_def demo_env_def demo_db_def
      demo_license_def demo_customer_def stamp_revoked_def registry_wellformed_def demo_fs_def)


section \<open>Checkout\<close>

lemma issue_license_ignores_provider:
  "issue_license lib cfg ev k (event\<lparr>provider := p, externalTransactionId := x\<rparr>) cid w
     = issue_license lib cfg ev k event cid w"
  by (simp add: issue_license_def Let_def split: sum.splits)

lemma issue_license_licenses_only:
  assumes "world_db w1 = Some d1" and "world_db w2 = Some d2" and "licenses d1 = licenses d2"
  shows "fst (issue_license lib cfg ev k event cid w1) = fst (issue_license lib cfg ev k event cid w2)
       \<and> license_rows (snd (issue_license lib cfg ev k event cid w1))
         = license_rows (snd (issue_license lib cfg ev k event cid w2))"
  using assms
  by (simp add: issue_license_def createLicense_def getDb_def license_rows_def Let_def
      split: sum.splits)

lemma demo_sign:
  "\<exists>l. signLicense demo_platform demo_config payload = Inr l"
proof -
  have "length (hexToBytes demo_key) = 32" by (simp add: hexToBytes_def demo_key_def)
  then show ?thesis by (simp add: signLicense_def demo_platform_def demo_config_def)
qed

lemma issue_license_after_createCustomer:
  assumes "world_db w = Some d"
  shows "fst (issue_license lib cfg ev k event cid (w\<lparr>world_db := Some (d\<lparr>customers := cs1\<rparr>)\<rparr>))
           = fst (issue_license lib cfg ev k event cid (w\<lparr>world_db := Some (d\<lparr>customers := cs2\<rparr>)\<rparr>))
       \<and> license_rows (snd (issue_license lib cfg ev k event cid (w\<lparr>world_db := Some (d\<lparr>customers := cs1\<rparr>)\<rparr>)))
           = license_rows (snd (issue_license lib cfg ev k event cid (w\<lparr>world_db := Some (d\<lparr>customers := cs2\<rparr>)\<rparr>)))"
  by (rule issue_license_licenses_only [of _ "d\<lparr>customers := cs1\<rparr>" _ "d\<lparr>customers := cs2\<rparr>"])
    simp_all

lemma processPaymentEvent_checkout:
  "eventType e = checkout_completed \<Longrightarrow>
     processPaymentEvent lib cfg ev e w =
       (case fst (handleCheckoutCompleted lib cfg ev e w) of
          Inl err \<Rightarrow> \<lparr>success = False, customerId = None, licenseId = None,
                       error = Some (String_of_error err)\<rparr>
        | Inr r \<Rightarrow> r,
        snd (handleCheckoutCompleted lib cfg ev e w))"
  by (simp add: processPaymentEvent_def processPaymentEvent_try_def split: prod.splits sum.splits)

lemma handleCheckoutCompleted_new_customer:
  assumes "world_db w = Some d" and "find (\<lambda>r. c_email r = email event) (customers d) = None"
  shows "handleCheckoutCompleted lib cfg ev event w =
           (if uuid ev 0 \<in> set (map c_id (customers d))
            then (Inl (Error ''UNIQUE constraint failed: customers.id''), w)
            else issue_license lib cfg ev 1 event (uuid ev 0)
                   (w\<lparr>world_db := Some (d\<lparr>customers := customers d @
                      [\<lparr>c_id = uuid ev 0, c_email = email event,
                        c_stripe_customer_id =
                          (if provider event = stripe \<and> externalCustomerId event \<noteq> []
                           then Some (externalCustomerId event) else None),
                        c_created_at = clock ev div 1000\<rparr>]\<rparr>)\<rparr>))"
  using assms
  by (simp add: handleCheckoutCompleted_def findCustomerByEmail_def createCustomer_def getDb_def Let_def)

lemma handleCheckoutCompleted_known_customer:
  assumes "world_db w = Some d" and "find (\<lambda>r. c_email r = email event) (customers d) = Some customer"
  shows "handleCheckoutCompleted lib cfg ev event w = issue_license lib cfg ev 0 event (c_id customer) w"
  using assms
  by (simp add: handleCheckoutCompleted_def findCustomerByEmail_def getDb_def)

lemma handleCheckoutCompleted_no_db:
  assumes "world_db w = None"
  shows "handleCheckoutCompleted lib cfg ev event w
           = (Inl (Error ''Database not initialized. Call initDb() first.''), w)"
  using assms
  by (simp add: handleCheckoutCompleted_def findCustomerByEmail_def getDb_def)

lemma handleCheckoutCompleted_ignores_provider:
  "fst (handleCheckoutCompleted lib cfg ev (e\<lparr>provider := p, externalTransactionId := x\<rparr>) w)
           = fst (handleCheckoutCompleted lib cfg ev e w)
      \<and> license_rows (snd (handleCheckoutCompleted lib cfg ev (e\<lparr>provider := p, externalTransactionId := x\<rparr>) w))
           = license_rows (snd (handleCheckoutCompleted lib cfg ev e w))"
proof (cases "world_db w")
  case None
  then show ?thesis by (simp add: handleCheckoutCompleted_no_db)
next
  case (Some d)
  show ?thesis
  proof (cases "find (\<lambda>r. c_email r = email e) (customers d)")
    case None
    show ?thesis
    proof (cases "uuid ev 0 \<in> set (map c_id (customers d))")
      case True
      with Some None show ?thesis by (simp add: handleCheckoutCompleted_new_customer)
    next
      case False
      have "handleCheckoutCompleted lib cfg ev (e\<lparr>provider := p, externalTransactionId := x\<rparr>) w
            = issue_license lib cfg ev 1 e (uuid ev 0)
                   (w\<lparr>world_db := Some (d\<lparr>customers := customers d @
                      [\<lparr>c_id = uuid ev 0, c_email = email e,
                        c_stripe_customer_id =
                          (if p = stripe \<and> externalCustomerId e \<noteq> []
                           then Some (externalCustomerId e) else None),
                        c_created_at = clock ev div 1000\<rparr>]\<rparr>)\<rparr>)"
        using Some None False
        by (simp add: handleCheckoutCompleted_new_customer issue_license_ignores_provider)
      moreover have "handleCheckoutCompleted lib cfg ev e w
            = issue_license lib cfg ev 1 e (uuid ev 0)
                   (w\<lparr>world_db := Some (d\<lparr>customers := customers d @
                      [\<lparr>c_id = uuid ev 0, c_email = email e,
                        c_stripe_customer_id =
                          (if provider e = stripe \<and> externalCustomerId e \<noteq> []
                           then Some (externalCustomerId e) else None),
                        c_created_at = clock ev div 1000\<rparr>]\<rparr>)\<rparr>)"
        using Some None False by (simp add: handleCheckoutCompleted_new_customer)
      ultimately show ?thesis
        using issue_license_after_createCustomer [OF Some] by simp
    qed
  next
    case (Some customer)
    with \<open>world_db w = Some d\<close> show ?thesis
      by (simp add: handleCheckoutCompleted_known_customer issue_license_ignores_provider)
  qed
qed

text \<open>
  What a checkout returns and which license rows it leaves do not depend on the event's
  provider or external transaction id.
\<close>

lemma checkout_provider_not_persisted:
  "fst (processPaymentEvent lib cfg ev (event\<lparr>eventType := checkout_completed, provider := p,
                                            externalTransactionId := x\<rparr>) w)
     = fst (processPaymentEvent lib cfg ev (event\<lparr>eventType := checkout_completed\<rparr>) w)
   \<and> license_rows (snd (processPaymentEvent lib cfg ev
          (event\<lparr>eventType := checkout_completed, provider := p, externalTransactionId := x\<rparr>) w))
     = license_rows (snd (processPaymentEvent lib cfg ev (event\<lparr>eventType := checkout_completed\<rparr>) w))"
  using handleCheckoutCompleted_ignores_provider
          [where e = "event\<lparr>eventType := checkout_completed\<rparr>" and p = p and x = x and w = w
             and lib = lib and cfg = cfg and ev = ev]
  by (simp add: processPaymentEvent_checkout)


lemma issue_license_success:
  assumes "world_db w = Some d"
      and "expiresAt event = None"
      and "- max_time \<le> clock ev + 31536000000" and "clock ev + 31536000000 \<le> max_time"
      and "\<And>payload. \<exists>l. signLicense lib cfg payload = Inr l"
      and "uuid ev k \<notin> set (map l_id (licenses d))"
  shows "issue_license lib cfg ev k event cid w =
           (Inr \<lparr>success = True, customerId = Some cid, licenseId = Some (uuid ev k), error = None\<rparr>,
            w\<lparr>world_db := Some (d\<lparr>licenses := licenses d @
               [\<lparr>l_id = uuid ev k, l_customer_id = cid, l_plan = plan event,
                 l_issued_at = Date_toISOString lib (clock ev),
                 l_expires_at = Date_toISOString lib (clock ev + 31536000000),
                 l_revoked_at = None, l_created_at = clock ev div 1000\<rparr>]\<rparr>)\<rparr>)"
proof -
  let ?payload = "[(''plan'', JStr (plan_text (plan event))), (''customer_id'', JStr cid),
      (''issued_at'', JStr (Date_toISOString lib (clock ev))),
      (''expires_at'', JStr (Date_toISOString lib (clock ev + 31536000000))),
      (''offline_ttl_days'', JNum 30)]"
  from assms(5) obtain l where "signLicense lib cfg ?payload = Inr l" by blast
  then show ?thesis
    using assms(1-4,6)
    by (simp add: issue_license_def toISOString_def new_Date_def createLicense_def getDb_def Let_def)
qed

lemma demo_uuid: "uuid demo_env 0 = ''uuid-0''" "uuid demo_env (Suc 0) = ''uuid-1''"
  by code_simp+

lemma demo_clock: "clock demo_env = 1700000100000"
  by (simp add: demo_env_def)

text \<open>
  C1: for a \<open>checkout_completed\<close> event a new license row is persisted whose
  \<open>payment_provider\<close> is the event's provider and whose \<open>external_transaction_id\<close> is
  the event's transaction id, and the result carries the new customer and license ids.
  Evaluated on the checkout of the test: the result carries both ids and the row is
  persisted, but it has no \<open>payment_provider\<close> and no \<open>external_transaction_id\<close>;
  the test expects \<open>payment_provider\<close> to be \<open>paddle\<close>.
\<close>

theorem checkout_row_lacks_provider:
  "fst (processPaymentEvent demo_platform demo_config demo_env paddle_checkout fresh_world)
     = \<lparr>success = True, customerId = Some ''uuid-0'', licenseId = Some ''uuid-1'', error = None\<rparr>
   \<and> findLicenseByCustomer
         (world_db (snd (processPaymentEvent demo_platform demo_config demo_env paddle_checkout fresh_world)))
         ''uuid-0'' = Inr (Some paddle_license)
   \<and> map_of (license_columns paddle_license) ''payment_provider'' = None
   \<and> map_of (license_columns paddle_license) ''external_transaction_id'' = None"
proof -
  have "handleCheckoutCompleted demo_platform demo_config demo_env paddle_checkout fresh_world
      = (Inr \<lparr>success = True, customerId = Some ''uuid-0'', licenseId = Some ''uuid-1'', error = None\<rparr>,
         fresh_world\<lparr>world_db := Some \<lparr>customers =
              [\<lparr>c_id = ''uuid-0'', c_email = ''paddle@example.com'', c_stripe_customer_id = None,
                c_created_at = 1700000100\<rparr>],
            licenses = [paddle_license]\<rparr>\<rparr>)"
    using handleCheckoutCompleted_new_customer [of fresh_world "\<lparr>customers = [], licenses = []\<rparr>"
        paddle_checkout demo_platform demo_config demo_env]
      issue_license_success [of _ _ paddle_checkout demo_env demo_platform demo_config 1 "''uuid-0''",
        OF _ _ _ _ demo_sign]
    by (simp add: fresh_world_def paddle_checkout_def demo_uuid demo_clock max_time_def paddle_license_def)
  then show ?thesis
    by (simp add: processPaymentEvent_checkout paddle_checkout_def findLicenseByCustomer_def getDb_def
        paddle_license_def license_columns_def)
qed


section \<open>Canonical serialisation\<close>










section \<open>Plan updates\<close>











end
